theory Spec2Isabelle
  imports Complex_Main
begin

section \<open>Values shared by the three source files\<close>

text \<open>
  A JavaScript number that reaches the booking form is either \<open>NaN\<close> (the number input
  read with \<open>valueAsNumber\<close> while it is empty) or a finite number. Finite numbers are
  modelled as exact rationals: the rounding of IEEE doubles is outside this development.
  Seat counts are integers. A JavaScript string is a \<open>string\<close>, one \<open>char\<close> per code unit.
\<close>

datatype number = NaN | Fin rat

text \<open>\<open>x > y\<close> and \<open>x >= y\<close> on numbers: every comparison with \<open>NaN\<close> is false.\<close>

fun gt_number :: "number \<Rightarrow> number \<Rightarrow> bool" where
  "gt_number (Fin x) (Fin y) = (y < x)"
| "gt_number _ _ = False"

fun ge_number :: "number \<Rightarrow> number \<Rightarrow> bool" where
  "ge_number (Fin x) (Fin y) = (y \<le> x)"
| "ge_number _ _ = False"

text \<open>
  \<open>x || d\<close> for a number \<open>x\<close> and a finite default \<open>d\<close>: \<open>0\<close> and \<open>NaN\<close> are falsy.
\<close>

definition or_default :: "number \<Rightarrow> rat \<Rightarrow> rat" where
  "or_default x d = (case x of NaN \<Rightarrow> d | Fin v \<Rightarrow> if v \<noteq> 0 then v else d)"

text \<open>
  The safe integers are the integers of magnitude at most \<open>2^53 - 1\<close>: each of them is a
  number value, and products and texts of safe integers are exact.
\<close>

definition safeInteger :: "int \<Rightarrow> bool" where
  "safeInteger i = (\<bar>i\<bar> \<le> 9007199254740991)"

text \<open>
  The text a template literal inserts for a safe integer: its decimal digits, with a minus
  sign when negative. Beyond the safe integers the runtime prints the digits of a rounded
  value and, from \<open>10^21\<close> on, exponent notation; \<open>numToString\<close> is the text of the runtime
  on the safe integers only, and what is stated about a text is stated for them.
\<close>

definition digitChars :: string where
  "digitChars = ''0123456789''"

definition digitChar :: "nat \<Rightarrow> char" where
  "digitChar d = digitChars ! d"

fun decimal :: "nat \<Rightarrow> string" where
  "decimal n = (if n < 10 then [digitChar n] else decimal (n div 10) @ [digitChar (n mod 10)])"

declare decimal.simps [simp del]

definition numToString :: "int \<Rightarrow> string" where
  "numToString i = (if i < 0 then CHR ''-'' # decimal (nat (- i)) else decimal (nat i))"

text \<open>
  A product \<open>x * y\<close> in double arithmetic. The product of two integers that is a safe
  integer is exact: \<open>Exact\<close> carries it. Every other product is \<open>Rounded\<close>: the runtime
  rounds it to a double, and its value is outside this development.
\<close>

datatype product = Exact int | Rounded

definition times_number :: "rat \<Rightarrow> rat \<Rightarrow> product" where
  "times_number x y =
     (if of_int \<lfloor>x\<rfloor> = x \<and> of_int \<lfloor>y\<rfloor> = y \<and> safeInteger (\<lfloor>x\<rfloor> * \<lfloor>y\<rfloor>)
      then Exact (\<lfloor>x\<rfloor> * \<lfloor>y\<rfloor>) else Rounded)"

text \<open>
  \<open>toFixed(2)\<close> of a product: a safe integer gets its digits and two zero decimals; the
  text of a rounded product is not computed (\<open>None\<close>).
\<close>

definition toFixed2 :: "product \<Rightarrow> string option" where
  "toFixed2 t = (case t of Exact i \<Rightarrow> Some (numToString i @ ''.00'') | Rounded \<Rightarrow> None)"

text \<open>
  The event record. Its type declaration is imported from \<open>@/types/api\<close>; the fields are the
  ones the object literals of the listing page carry and the dialog reads.
\<close>

record Event =
  id_event :: string
  title :: string
  description :: string
  location :: string
  date :: string
  availableSeats :: int
  totalSeats :: int
  price :: rat
  image_event :: string
  gradient :: string

section \<open>Booking dialog (src/components/BookingDialog.tsx)\<close>

subsection \<open>The schema\<close>

record BookingFormData =
  name :: string
  email :: string
  mobile :: string
  quantity :: number

datatype Field = NameField | EmailField | MobileField | QuantityField

type_synonym Issue = "Field \<times> string"

text \<open>
  \<open>bookingSchema\<close> returns the issues of a form, in field order; the form validates when
  there is none. The address check of \<open>z.string().email\<close> belongs to the schema library and
  is the parameter \<open>emailOk\<close>. \<open>z.number()\<close> refuses \<open>NaN\<close> before \<open>min(1)\<close> is looked at.
\<close>

definition bookingSchema :: "(string \<Rightarrow> bool) \<Rightarrow> BookingFormData \<Rightarrow> Issue list" where
  "bookingSchema emailOk d =
     (if 2 \<le> length (name d) then [] else [(NameField, ''Name must be at least 2 characters'')]) @
     (if emailOk (email d) then [] else [(EmailField, ''Invalid email address'')]) @
     (if 10 \<le> length (mobile d) then []
      else [(MobileField, ''Mobile number must be at least 10 digits'')]) @
     (case quantity d of
        NaN \<Rightarrow> [(QuantityField, ''Expected number, received nan'')]
      | Fin q \<Rightarrow> if 1 \<le> q then [] else [(QuantityField, ''Quantity must be at least 1'')])"

definition validates :: "(string \<Rightarrow> bool) \<Rightarrow> BookingFormData \<Rightarrow> bool" where
  "validates emailOk d = (bookingSchema emailOk d = [])"

text \<open>
  The parts of an address recogniser: character classes, splitting at a separator, and
  the checks of the part before the \<open>@\<close> and of the part after it.
\<close>

definition letterChars :: string where
  "letterChars = ''abcdefghijklmnopqrstuvwxyzABCDEFGHIJKLMNOPQRSTUVWXYZ''"

definition isLetter :: "char \<Rightarrow> bool" where
  "isLetter c = (c \<in> set letterChars)"

definition isAlnum :: "char \<Rightarrow> bool" where
  "isAlnum c = (c \<in> set letterChars \<or> c \<in> set digitChars)"

fun splitOn :: "char \<Rightarrow> string \<Rightarrow> string list" where
  "splitOn c [] = [[]]"
| "splitOn c (x # xs) =
     (if x = c then [] # splitOn c xs
      else (case splitOn c xs of [] \<Rightarrow> [[x]] | p # ps \<Rightarrow> (x # p) # ps))"

fun twoDots :: "string \<Rightarrow> bool" where
  "twoDots (a # b # cs) = ((a = CHR ''.'' \<and> b = CHR ''.'') \<or> twoDots (b # cs))"
| "twoDots _ = False"

definition localOk :: "string \<Rightarrow> bool" where
  "localOk l =
     (case rev l of
        [] \<Rightarrow> False
      | z # _ \<Rightarrow>
          (isAlnum z \<or> z \<in> set ''_+-'') \<and>
          list_all (\<lambda>c. isAlnum c \<or> c \<in> set ''_+-.'' \<or> c = CHR 0x27) l \<and>
          \<not> twoDots l \<and> take 1 l \<noteq> ''.'')"

definition labelOk :: "string \<Rightarrow> bool" where
  "labelOk l = (case l of [] \<Rightarrow> False
                | c # cs \<Rightarrow> isAlnum c \<and> list_all (\<lambda>x. isAlnum x \<or> x = CHR ''-'') cs)"

definition domainOk :: "string \<Rightarrow> bool" where
  "domainOk d =
     (case rev (splitOn (CHR ''.'') d) of
        tld # l # ls \<Rightarrow> 2 \<le> length tld \<and> list_all isLetter tld \<and> list_all labelOk (l # ls)
      | _ \<Rightarrow> False)"

text \<open>
  Modelled from the spec: the pattern behind "standard address syntax" is in the schema
  library, not under src/. The recogniser accepts \<open>local@label. ... .tld\<close>: exactly one
  \<open>@\<close>; a local part of letters, digits and \<open>_ ' + - .\<close> that does not start with a dot,
  has no two dots in a row and ends in a letter, digit or one of \<open>_ + -\<close>; one or more
  labels that start with a letter or digit and continue with letters, digits or hyphens;
  and a final label of two or more letters.
\<close>

definition isEmail :: "string \<Rightarrow> bool" where
  "isEmail s = (case splitOn (CHR ''@'') s of
                  [l, d] \<Rightarrow> localOk l \<and> domainOk d
                | _ \<Rightarrow> False)"

subsection \<open>Component state\<close>

datatype BookingStatus = Idle | Success | Error

record BookingRequest = BookingFormData +
  eventId :: string

text \<open>What the component does to the outside: the calls it makes, in order.\<close>

datatype Effect =
    MutateAsync BookingRequest
  | Confetti
  | SetTimeout nat
  | OnOpenChange bool
  | OnSuccess

text \<open>
  The state of one mounted dialog: the form library's values and field errors, the two
  \<open>useState\<close> cells, the \<open>open\<close> property last rendered, the mutation's pending flag,
  the number of timeouts not yet fired, and the calls made so far.
\<close>

text \<open>
  Modelled from the spec: \<open>useCreateBooking\<close> is not under src/. The field \<open>isPending\<close>
  stands for its \<open>createBooking.isPending\<close>, true exactly while the create-booking
  operation is in flight.
\<close>

record DialogState =
  formValues :: BookingFormData
  errors :: "Issue list"
  bookingStatus :: BookingStatus
  errorMessage :: string
  open_prop :: bool
  isPending :: bool
  timers :: nat
  effects :: "Effect list"

text \<open>
  \<open>defaultValues\<close>, and what \<open>reset({ quantity: 1 })\<close> leaves: the text inputs are empty.
\<close>

definition defaultValues :: BookingFormData where
  "defaultValues = \<lparr>name = '''', email = '''', mobile = '''', quantity = Fin 1\<rparr>"

definition mount :: "bool \<Rightarrow> DialogState" where
  "mount b = \<lparr>formValues = defaultValues, errors = [], bookingStatus = Idle, errorMessage = '''',
              open_prop = b, isPending = False, timers = 0, effects = []\<rparr>"

subsection \<open>The effect on \<open>open\<close>\<close>

text \<open>The body of the effect, run with the current value of \<open>open\<close>.\<close>

definition useEffect_open :: "bool \<Rightarrow> DialogState \<Rightarrow> DialogState" where
  "useEffect_open b s =
     (if b then s\<lparr>formValues := defaultValues, errors := [], bookingStatus := Idle,
                  errorMessage := ''''\<rparr>
      else s)"

text \<open>
  A render with the property \<open>open = b\<close>. The effect depends on \<open>open\<close> (and on the stable
  \<open>reset\<close>), so it runs only when \<open>open\<close> differs from the previous render.
\<close>

definition rerender :: "bool \<Rightarrow> DialogState \<Rightarrow> DialogState" where
  "rerender b s = (if b = open_prop s then s else useEffect_open b (s\<lparr>open_prop := b\<rparr>))"

subsection \<open>The submit handler\<close>

definition seatMessage :: "Event \<Rightarrow> string" where
  "seatMessage e =
     ''Only '' @ numToString (availableSeats e) @ '' seats available. Please reduce quantity.''"

definition fallbackMessage :: string where
  "fallbackMessage = ''Booking failed. Please try again.''"

text \<open>
  How the awaited request ends. A rejection carries \<open>error?.message\<close>: \<open>None\<close> when the
  error is missing or has no message.
\<close>

datatype Settled = Resolved | Rejected "string option"

text \<open>\<open>error?.message || "Booking failed. Please try again."\<close>: the empty string is falsy.\<close>

definition messageOr :: "string option \<Rightarrow> string \<Rightarrow> string" where
  "messageOr m d = (case m of None \<Rightarrow> d | Some t \<Rightarrow> if t = [] then d else t)"

text \<open>
  \<open>onSubmit\<close> up to its \<open>await\<close>: the two guards, then the call of \<open>mutateAsync\<close>. The second
  component is the request that was issued, if any.
\<close>

definition onSubmit_call ::
  "Event option \<Rightarrow> BookingFormData \<Rightarrow> DialogState \<Rightarrow> DialogState \<times> BookingRequest option" where
  "onSubmit_call ev d s =
     (case ev of
        None \<Rightarrow> (s, None)
      | Some e \<Rightarrow>
          if gt_number (quantity d) (Fin (of_int (availableSeats e)))
          then (s\<lparr>bookingStatus := Error, errorMessage := seatMessage e\<rparr>, None)
          else
            let req = \<lparr>name = name d, email = email d, mobile = mobile d,
                       quantity = quantity d, eventId = id_event e\<rparr>
            in (s\<lparr>isPending := True, effects := effects s @ [MutateAsync req]\<rparr>, Some req))"

text \<open>\<open>onSubmit\<close> after its \<open>await\<close>: the rest of the \<open>try\<close> block, or the \<open>catch\<close> block.\<close>

definition onSubmit_settled :: "Settled \<Rightarrow> DialogState \<Rightarrow> DialogState" where
  "onSubmit_settled r s =
     (case r of
        Resolved \<Rightarrow>
          s\<lparr>bookingStatus := Success, timers := Suc (timers s),
            effects := effects s @ [Confetti, SetTimeout 100]\<rparr>
      | Rejected m \<Rightarrow>
          s\<lparr>bookingStatus := Error, errorMessage := messageOr m fallbackMessage\<rparr>)"

text \<open>
  The whole handler when nothing else happens while the request is in flight;
  \<open>mutateAsync\<close> says how each request ends.
\<close>

definition onSubmit ::
  "(BookingRequest \<Rightarrow> Settled) \<Rightarrow> Event option \<Rightarrow> BookingFormData \<Rightarrow> DialogState \<Rightarrow> DialogState" where
  "onSubmit mutateAsync ev d s =
     (case onSubmit_call ev d s of
        (s1, None) \<Rightarrow> s1
      | (s1, Some req) \<Rightarrow> onSubmit_settled (mutateAsync req) (s1\<lparr>isPending := False\<rparr>))"

text \<open>
  \<open>handleSubmit(onSubmit)\<close> of the form library: the resolver runs on the current values;
  with issues they become the field errors and \<open>onSubmit\<close> is not called.
\<close>

definition handleSubmit :: "(string \<Rightarrow> bool) \<Rightarrow> Event option \<Rightarrow> DialogState \<Rightarrow> DialogState" where
  "handleSubmit emailOk ev s =
     (let issues = bookingSchema emailOk (formValues s)
      in if issues = [] then fst (onSubmit_call ev (formValues s) (s\<lparr>errors := []\<rparr>))
         else s\<lparr>errors := issues\<rparr>)"

text \<open>The callback of the timeout set on success.\<close>

definition timeoutCallback :: "DialogState \<Rightarrow> DialogState" where
  "timeoutCallback s =
     s\<lparr>timers := timers s - 1, effects := effects s @ [OnOpenChange False, OnSuccess]\<rparr>"

subsection \<open>What is rendered\<close>

text \<open>
  \<open>quantity = watch("quantity") || 1\<close> and \<open>totalAmount = event ? event.price * quantity : 0\<close>.
\<close>

definition totalAmount :: "Event option \<Rightarrow> number \<Rightarrow> product" where
  "totalAmount ev watched =
     (case ev of None \<Rightarrow> Exact 0 | Some e \<Rightarrow> times_number (price e) (or_default watched 1))"

text \<open>
  The parts of the rendered dialog that depend on state. The total amount field shows
  a dollar sign and \<open>totalAmount.toFixed(2)\<close>; it is \<open>None\<close> where the product is rounded
  and its text not computed.
\<close>

record DialogView =
  dialogOpen :: bool
  dialogTitle :: string
  successBanner :: bool
  errorBanner :: "string option"
  inputsDisabled :: bool
  fieldMessages :: "Issue list"
  availableText :: string
  totalAmountField :: "string option"
  cancelDisabled :: bool
  submitDisabled :: bool
  submitLabel :: string

text \<open>Without an event the component renders nothing.\<close>

definition BookingDialog :: "Event option \<Rightarrow> DialogState \<Rightarrow> DialogView option" where
  "BookingDialog ev s =
     (case ev of
        None \<Rightarrow> None
      | Some e \<Rightarrow> Some
          \<lparr>dialogOpen = open_prop s,
           dialogTitle = ''Book Tickets - '' @ title e,
           successBanner = (bookingStatus s = Success),
           errorBanner = (if bookingStatus s = Error then Some (errorMessage s) else None),
           inputsDisabled = isPending s,
           fieldMessages = errors s,
           availableText = ''Available: '' @ numToString (availableSeats e) @ '' seats'',
           totalAmountField =
             map_option (\<lambda>t. CHR ''$'' # t) (toFixed2 (totalAmount ev (quantity (formValues s)))),
           cancelDisabled = isPending s,
           submitDisabled = (isPending s \<or> availableSeats e = 0),
           submitLabel = (if isPending s then ''Processing...'' else ''Confirm Booking'')\<rparr>)"

subsection \<open>Operations of a mounted dialog\<close>

text \<open>
  What can happen to a mounted dialog: the parent renders it with a value of \<open>open\<close>, the
  user edits the form, submits it or presses Cancel, the request in flight settles, a
  timeout fires. A control that is disabled or not rendered does nothing: the step is
  \<open>None\<close>. The event property is given at each step, since the parent may change it.
\<close>

datatype Op =
    Render bool
  | Change BookingFormData
  | SubmitForm
  | Settle Settled
  | TimerFires
  | CancelClick

definition step ::
  "(string \<Rightarrow> bool) \<Rightarrow> Event option \<Rightarrow> Op \<Rightarrow> DialogState \<Rightarrow> DialogState option" where
  "step emailOk ev op s =
     (case op of
        Render b \<Rightarrow> Some (rerender b s)
      | Change v \<Rightarrow>
          (case BookingDialog ev s of
             None \<Rightarrow> None
           | Some view \<Rightarrow> if inputsDisabled view then None else Some (s\<lparr>formValues := v\<rparr>))
      | SubmitForm \<Rightarrow>
          (case BookingDialog ev s of
             None \<Rightarrow> None
           | Some view \<Rightarrow>
               if submitDisabled view then None else Some (handleSubmit emailOk ev s))
      | Settle r \<Rightarrow>
          if isPending s then Some (onSubmit_settled r (s\<lparr>isPending := False\<rparr>)) else None
      | TimerFires \<Rightarrow> if 0 < timers s then Some (timeoutCallback s) else None
      | CancelClick \<Rightarrow>
          (case BookingDialog ev s of
             None \<Rightarrow> None
           | Some view \<Rightarrow>
               if cancelDisabled view then None
               else Some (s\<lparr>effects := effects s @ [OnOpenChange False]\<rparr>)))"

fun exec ::
  "(string \<Rightarrow> bool) \<Rightarrow> (Event option \<times> Op) list \<Rightarrow> DialogState \<Rightarrow> DialogState option" where
  "exec emailOk [] s = Some s"
| "exec emailOk ((ev, op) # rest) s =
     (case step emailOk ev op s of None \<Rightarrow> None | Some s' \<Rightarrow> exec emailOk rest s')"

section \<open>Event detail hook (\<open>useEvent\<close>)\<close>

text \<open>
  The identifier is a string or \<open>undefined\<close> (\<open>None\<close>). \<open>!id\<close> holds for \<open>undefined\<close> and
  for the empty string.
\<close>

definition absent :: "string option \<Rightarrow> bool" where
  "absent ident = (case ident of None \<Rightarrow> True | Some t \<Rightarrow> t = [])"

text \<open>The text a template literal inserts for the identifier.\<close>

definition idText :: "string option \<Rightarrow> string" where
  "idText ident = (case ident of None \<Rightarrow> ''undefined'' | Some t \<Rightarrow> t)"

record 'a ApiResponse =
  data :: 'a

text \<open>
  \<open>apiClient.get\<close>: for a path, the promise is rejected with a message or fulfilled with
  a response.
\<close>

type_synonym 'a ApiGet = "string \<Rightarrow> string + 'a ApiResponse"

datatype 'a Outcome = Throws string | Returns 'a

text \<open>A call of the query function: the paths requested, in order, and how the call ends.\<close>

definition queryFn_call :: "'a ApiGet \<Rightarrow> string option \<Rightarrow> string list \<times> 'a Outcome" where
  "queryFn_call get ident =
     (if absent ident then ([], Throws ''Event ID is required'')
      else
        let path = ''/events/'' @ idText ident
        in (case get path of
              Inl m \<Rightarrow> ([path], Throws m)
            | Inr response \<Rightarrow> ([path], Returns (data response))))"

text \<open>The options object the hook passes to \<open>useQuery\<close>.\<close>

record 'a UseQueryOptions =
  queryKey :: "string option list"
  queryFn :: "string list \<times> 'a Outcome"
  enabled :: bool

definition useEvent_options :: "'a ApiGet \<Rightarrow> string option \<Rightarrow> 'a UseQueryOptions" where
  "useEvent_options get ident =
     \<lparr>queryKey = [Some ''event'', ident],
      queryFn = queryFn_call get ident,
      enabled = (\<not> absent ident)\<rparr>"

datatype QueryStatus = StatusPending | StatusError | StatusSuccess

datatype FetchStatus = FetchIdle | Fetching

record 'a QueryResult =
  status :: QueryStatus
  fetchStatus :: FetchStatus
  error :: "string option"
  fetched :: "'a option"

text \<open>
  The query library is an external collaborator; this is its contract as far as the hook
  relies on it, for a key with nothing cached. A query whose \<open>enabled\<close> option is false is
  not run: the hook reports a pending status, an idle fetch and no error, and stays
  there. An enabled query runs its query function; the hook first reports pending and
  fetching, and once the call has ended reports its value or its error (the library's
  retries are not modelled). The first component is the list of paths requested.
\<close>

definition useQuery_first :: "'a UseQueryOptions \<Rightarrow> 'a QueryResult" where
  "useQuery_first opts =
     \<lparr>status = StatusPending,
      fetchStatus = (if enabled opts then Fetching else FetchIdle),
      error = None, fetched = None\<rparr>"

definition useQuery_settled :: "'a UseQueryOptions \<Rightarrow> string list \<times> 'a QueryResult" where
  "useQuery_settled opts =
     (if enabled opts then
        (case queryFn opts of
           (paths, Throws m) \<Rightarrow>
             (paths, \<lparr>status = StatusError, fetchStatus = FetchIdle, error = Some m,
                      fetched = None\<rparr>)
         | (paths, Returns v) \<Rightarrow>
             (paths, \<lparr>status = StatusSuccess, fetchStatus = FetchIdle, error = None,
                      fetched = Some v\<rparr>))
      else ([], useQuery_first opts))"

text \<open>The hook: what it reports at once, and the requests and report once settled.\<close>

definition useEvent_first :: "'a ApiGet \<Rightarrow> string option \<Rightarrow> 'a QueryResult" where
  "useEvent_first get ident = useQuery_first (useEvent_options get ident)"

definition useEvent :: "'a ApiGet \<Rightarrow> string option \<Rightarrow> string list \<times> 'a QueryResult" where
  "useEvent get ident = useQuery_settled (useEvent_options get ident)"

section \<open>Event listing page (\<open>Events\<close>)\<close>

record EventsFilters =
  searchTerm :: string
  locationFilter :: string
  dateFilter :: string

definition initialFilters :: EventsFilters where
  "initialFilters = \<lparr>searchTerm = '''', locationFilter = ''all'', dateFilter = ''all''\<rparr>"

definition eventTech :: string where "eventTech = ''@/assets/event-tech.jpg''"
definition eventMusic :: string where "eventMusic = ''@/assets/event-music.jpg''"
definition eventBusiness :: string where "eventBusiness = ''@/assets/event-business.jpg''"

definition allEvents :: "Event list" where
  "allEvents =
   [\<lparr>id_event = ''1'', title = ''Tech Innovation Summit 2025'',
     description = ''Join industry leaders discussing the future of AI, blockchain, and quantum computing in this groundbreaking summit.'',
     location = ''San Francisco, CA'', date = ''2025-03-15T09:00:00'',
     availableSeats = 150, totalSeats = 500, price = 299,
     image_event = eventTech, gradient = ''bg-gradient-blue''\<rparr>,
    \<lparr>id_event = ''2'', title = ''Summer Music Festival'',
     description = ''Experience three days of incredible live music from top artists across multiple genres under the stars.'',
     location = ''Austin, TX'', date = ''2025-06-20T18:00:00'',
     availableSeats = 45, totalSeats = 1000, price = 199,
     image_event = eventMusic, gradient = ''bg-gradient-pink''\<rparr>,
    \<lparr>id_event = ''3'', title = ''Business Networking Gala'',
     description = ''Connect with entrepreneurs, investors, and business leaders in an elegant evening of networking and insights.'',
     location = ''New York, NY'', date = ''2025-04-10T19:00:00'',
     availableSeats = 200, totalSeats = 300, price = 149,
     image_event = eventBusiness, gradient = ''bg-gradient-secondary''\<rparr>,
    \<lparr>id_event = ''4'', title = ''Digital Marketing Conference'',
     description = ''Learn the latest strategies in SEO, social media, and content marketing from industry experts.'',
     location = ''Miami, FL'', date = ''2025-05-05T10:00:00'',
     availableSeats = 80, totalSeats = 250, price = 179,
     image_event = eventTech, gradient = ''bg-gradient-primary''\<rparr>,
    \<lparr>id_event = ''5'', title = ''Jazz & Blues Night'',
     description = ''An intimate evening with renowned jazz and blues musicians in a historic venue.'',
     location = ''New Orleans, LA'', date = ''2025-04-22T20:00:00'',
     availableSeats = 120, totalSeats = 200, price = 89,
     image_event = eventMusic, gradient = ''bg-gradient-blue''\<rparr>,
    \<lparr>id_event = ''6'', title = ''Startup Pitch Competition'',
     description = ''Watch innovative startups pitch their ideas to top investors and win funding opportunities.'',
     location = ''Boston, MA'', date = ''2025-05-18T14:00:00'',
     availableSeats = 180, totalSeats = 350, price = 99,
     image_event = eventBusiness, gradient = ''bg-gradient-pink''\<rparr>]"

text \<open>One cell of the grid: the key, the animation delay \<open>index * 0.1\<close> and the card.\<close>

record GridItem =
  key :: string
  delay :: rat
  cardProps :: Event

text \<open>
  What the page renders from its three state cells: the values shown in the three
  controls, the number after "Showing", and the grid.
\<close>

record EventsView =
  searchValue :: string
  locationValue :: string
  dateValue :: string
  showing :: nat
  grid :: "GridItem list"

definition Events :: "EventsFilters \<Rightarrow> EventsView" where
  "Events f =
     \<lparr>searchValue = searchTerm f,
      locationValue = locationFilter f,
      dateValue = dateFilter f,
      showing = length allEvents,
      grid = map (\<lambda>(index, event).
                    \<lparr>key = id_event event, delay = of_nat index / 10, cardProps = event\<rparr>)
                 (enumerate 0 allEvents)\<rparr>"

section \<open>Properties and sample inputs\<close>

text \<open>The invariant that links the status to the message shown in the error banner.\<close>

definition errorHasMessage :: "DialogState \<Rightarrow> bool" where
  "errorHasMessage s = (bookingStatus s = Error \<longrightarrow> errorMessage s \<noteq> [])"

text \<open>
  What a text states as a count, defined apart from \<open>numToString\<close>: the integer that a
  decimal numeral denotes. Only the canonical numeral is read: digits \<open>0\<close> to \<open>9\<close>, no
  leading zero except for \<open>0\<close> itself, a minus sign only before a numeral other than \<open>0\<close>.
\<close>

definition digitValue :: "char \<Rightarrow> nat option" where
  "digitValue c =
     map_of [(CHR ''0'', 0), (CHR ''1'', 1), (CHR ''2'', 2), (CHR ''3'', 3), (CHR ''4'', 4),
             (CHR ''5'', 5), (CHR ''6'', 6), (CHR ''7'', 7), (CHR ''8'', 8), (CHR ''9'', 9)] c"

fun readDigits :: "nat \<Rightarrow> string \<Rightarrow> nat option" where
  "readDigits acc [] = Some acc"
| "readDigits acc (c # cs) =
     (case digitValue c of None \<Rightarrow> None | Some d \<Rightarrow> readDigits (10 * acc + d) cs)"

definition readNat :: "string \<Rightarrow> nat option" where
  "readNat t =
     (case t of
        [] \<Rightarrow> None
      | c # cs \<Rightarrow> if c = CHR ''0'' \<and> cs \<noteq> [] then None else readDigits 0 t)"

definition readCount :: "string \<Rightarrow> int option" where
  "readCount t =
     (case t of
        [] \<Rightarrow> None
      | c # cs \<Rightarrow>
          if c = CHR ''-''
          then (case readNat cs of
                  None \<Rightarrow> None
                | Some n \<Rightarrow> if n = 0 then None else Some (- int n))
          else map_option int (readNat t))"

text \<open>
  The transitions of the status field as the specification enumerates them:
  idle to success, idle to error, error to idle, success to idle.
\<close>

fun enumerated :: "BookingStatus \<Rightarrow> BookingStatus \<Rightarrow> bool" where
  "enumerated Idle Success = True"
| "enumerated Idle Error = True"
| "enumerated Error Idle = True"
| "enumerated Success Idle = True"
| "enumerated _ _ = False"

text \<open>A seat violation: the form validates and asks for more seats than are available.\<close>

definition seatViolation :: "(string \<Rightarrow> bool) \<Rightarrow> Event option \<Rightarrow> DialogState \<Rightarrow> bool" where
  "seatViolation emailOk ev s =
     (case ev of
        None \<Rightarrow> False
      | Some e \<Rightarrow> validates emailOk (formValues s) \<and>
                  gt_number (quantity (formValues s)) (Fin (of_int (availableSeats e))))"

text \<open>Sample inputs: the second event of the listing page, a form, an API that is down.\<close>

definition festival :: Event where
  "festival =
     \<lparr>id_event = ''2'', title = ''Summer Music Festival'',
      description = ''Experience three days of incredible live music from top artists across multiple genres under the stars.'',
      location = ''Austin, TX'', date = ''2025-06-20T18:00:00'',
      availableSeats = 45, totalSeats = 1000, price = 199,
      image_event = eventMusic, gradient = ''bg-gradient-pink''\<rparr>"

definition formAl :: BookingFormData where
  "formAl = \<lparr>name = ''Al'', email = ''a@b.com'', mobile = ''1234567890'', quantity = Fin 2\<rparr>"

definition offline :: "Event ApiGet" where
  "offline path = Inl ''Network Error''"

text \<open>Two booking services: one accepts every request, one declines every request.\<close>

definition accepting :: "BookingRequest \<Rightarrow> Settled" where
  "accepting req = Resolved"

definition declining :: "BookingRequest \<Rightarrow> Settled" where
  "declining req = Rejected (Some ''Payment declined'')"

text \<open>
  A session on the festival: the dialog opens, the user asks for 46 of the 45 seats and
  submits, then asks for 2 and submits again without reopening.
\<close>

definition retryRun :: "(Event option \<times> Op) list" where
  "retryRun =
     [(Some festival, Render True),
      (Some festival, Change (formAl\<lparr>quantity := Fin 46\<rparr>)),
      (Some festival, SubmitForm),
      (Some festival, Change formAl),
      (Some festival, SubmitForm)]"

section \<open>Auxiliary facts\<close>

lemmas email_defs = isEmail_def localOk_def domainOk_def labelOk_def isAlnum_def isLetter_def
  letterChars_def digitChars_def

lemma isEmail_sample: "isEmail ''a@b.com''"
  by (simp add: email_defs)

lemma isEmail_sample_not: "\<not> isEmail ''not-an-email''"
  by (simp add: email_defs)

lemma validates_formAl: "validates isEmail formAl"
  by (simp add: validates_def bookingSchema_def formAl_def isEmail_sample)

lemma validates_formAl_46: "validates isEmail (formAl\<lparr>quantity := Fin 46\<rparr>)"
  by (simp add: validates_def bookingSchema_def formAl_def isEmail_sample)

lemma numToString_45: "numToString 45 = ''45''"
  by (simp add: numToString_def decimal.simps digitChar_def digitChars_def)

text \<open>
  \<open>numToString\<close> and \<open>readCount\<close> are inverse to each other: the text of an integer is the
  one canonical numeral that denotes it.
\<close>

lemma digitValue_digitChar: "d < 10 \<Longrightarrow> digitValue (digitChar d) = Some d"
proof -
  assume "d < 10"
  then have "d = 0 \<or> d = 1 \<or> d = 2 \<or> d = 3 \<or> d = 4 \<or> d = 5 \<or> d = 6 \<or> d = 7 \<or> d = 8 \<or> d = 9"
    by arith
  then show ?thesis
    by (elim disjE) (simp_all add: digitChar_def digitChars_def digitValue_def)
qed

lemma digitChar_not_zero: "0 < d \<Longrightarrow> d < 10 \<Longrightarrow> digitChar d \<noteq> CHR ''0''"
proof -
  assume "0 < d" "d < 10"
  then have "d = 1 \<or> d = 2 \<or> d = 3 \<or> d = 4 \<or> d = 5 \<or> d = 6 \<or> d = 7 \<or> d = 8 \<or> d = 9"
    by arith
  then show ?thesis
    by (elim disjE) (simp_all add: digitChar_def digitChars_def)
qed

lemma digitChar_not_minus: "d < 10 \<Longrightarrow> digitChar d \<noteq> CHR ''-''"
proof -
  assume "d < 10"
  then have "d = 0 \<or> d = 1 \<or> d = 2 \<or> d = 3 \<or> d = 4 \<or> d = 5 \<or> d = 6 \<or> d = 7 \<or> d = 8 \<or> d = 9"
    by arith
  then show ?thesis
    by (elim disjE) (simp_all add: digitChar_def digitChars_def)
qed

lemma readDigits_snoc:
  "readDigits acc (xs @ [c]) =
     (case readDigits acc xs of
        None \<Rightarrow> None
      | Some v \<Rightarrow> (case digitValue c of None \<Rightarrow> None | Some d \<Rightarrow> Some (10 * v + d)))"
  by (induction xs arbitrary: acc) (auto split: option.splits)

lemma decimal_nonempty: "decimal n \<noteq> []"
  by (subst decimal.simps) simp

lemma readDigits_decimal: "readDigits 0 (decimal n) = Some n"
proof (induction n rule: decimal.induct)
  case (1 n)
  show ?case
  proof (cases "n < 10")
    case True
    then show ?thesis
      by (subst decimal.simps) (simp add: digitValue_digitChar)
  next
    case False
    with 1 have ih: "readDigits 0 (decimal (n div 10)) = Some (n div 10)"
      by simp
    have m: "n mod 10 < 10" by simp
    from False show ?thesis
      by (subst decimal.simps) (simp add: readDigits_snoc ih digitValue_digitChar [OF m])
  qed
qed

lemma hd_decimal: "hd (decimal n) \<noteq> CHR ''-'' \<and> (0 < n \<longrightarrow> hd (decimal n) \<noteq> CHR ''0'')"
proof (induction n rule: decimal.induct)
  case (1 n)
  show ?case
  proof (cases "n < 10")
    case True
    then show ?thesis
      by (subst (1 2) decimal.simps) (simp add: digitChar_not_zero digitChar_not_minus)
  next
    case False
    with 1 have ih: "hd (decimal (n div 10)) \<noteq> CHR ''-'' \<and>
        (0 < n div 10 \<longrightarrow> hd (decimal (n div 10)) \<noteq> CHR ''0'')"
      by simp
    from False have p: "0 < n div 10" by simp
    from False ih p show ?thesis
      by (subst (1 2) decimal.simps) (simp add: decimal_nonempty)
  qed
qed

lemma readNat_decimal: "readNat (decimal n) = Some n"
proof (cases "decimal n")
  case Nil
  with decimal_nonempty show ?thesis by simp
next
  case (Cons c cs)
  have z: "c = CHR ''0'' \<Longrightarrow> cs = []"
  proof -
    assume c: "c = CHR ''0''"
    with hd_decimal [of n] Cons have "n = 0" by auto
    then have "decimal n = [digitChar 0]" by (subst decimal.simps) simp
    with Cons show "cs = []" by simp
  qed
  from readDigits_decimal [of n] Cons z show ?thesis
    by (auto simp add: readNat_def)
qed

lemma readCount_numToString: "readCount (numToString i) = Some i"
proof (cases "i < 0")
  case True
  then show ?thesis
    by (simp add: readCount_def numToString_def readNat_decimal)
next
  case False
  obtain c cs where d: "decimal (nat i) = c # cs"
    using decimal_nonempty [of "nat i"] by (cases "decimal (nat i)") auto
  with hd_decimal [of "nat i"] have "c \<noteq> CHR ''-''" by simp
  with False d readNat_decimal [of "nat i"] show ?thesis
    by (simp add: readCount_def numToString_def)
qed

lemma digitValue_Some: "digitValue c = Some d \<Longrightarrow> d < 10 \<and> digitChar d = c"
  by (auto simp add: digitValue_def digitChar_def digitChars_def split: if_splits)

lemma decimal_readDigits:
  "readDigits 0 xs = Some v \<Longrightarrow> xs \<noteq> [] \<Longrightarrow> (hd xs = CHR ''0'' \<longrightarrow> length xs = 1)
     \<Longrightarrow> decimal v = xs"
proof (induction xs arbitrary: v rule: rev_induct)
  case Nil
  then show ?case by simp
next
  case (snoc c ys)
  from snoc.prems(1) obtain w d where w: "readDigits 0 ys = Some w"
    and d: "digitValue c = Some d" and v: "v = 10 * w + d"
    by (auto simp add: readDigits_snoc split: option.splits)
  from digitValue_Some [OF d] have d10: "d < 10" and dc: "digitChar d = c"
    by simp_all
  show ?case
  proof (cases "ys = []")
    case True
    with w v d10 dc show ?thesis
      by (subst decimal.simps) simp
  next
    case False
    with snoc.prems(3) have h: "hd ys \<noteq> CHR ''0''"
      by (cases ys) auto
    from snoc.IH [OF w False] h have ih: "decimal w = ys"
      by simp
    have "w \<noteq> 0"
    proof
      assume "w = 0"
      with ih have "ys = [digitChar 0]"
        by (subst (asm) decimal.simps) simp
      with h show False
        by (simp add: digitChar_def digitChars_def)
    qed
    with v d10 have big: "\<not> v < 10" and q: "v div 10 = w" and r: "v mod 10 = d"
      by simp_all
    from big show ?thesis
      by (subst decimal.simps) (simp add: q r ih dc)
  qed
qed

lemma decimal_readNat: "readNat t = Some n \<Longrightarrow> decimal n = t"
  by (cases t) (auto simp add: readNat_def split: if_splits intro!: decimal_readDigits)

lemma numToString_readCount: "readCount t = Some i \<Longrightarrow> numToString i = t"
  by (cases t)
    (auto simp add: readCount_def numToString_def decimal_readNat
       split: if_splits option.splits)

lemma readCount_iff: "readCount t = Some i \<longleftrightarrow> t = numToString i"
  using numToString_readCount readCount_numToString by blast


lemma times_number_rounded:
  "of_int \<lfloor>x\<rfloor> \<noteq> x \<or> of_int \<lfloor>y\<rfloor> \<noteq> y \<or> 9007199254740991 < \<bar>\<lfloor>x\<rfloor> * \<lfloor>y\<rfloor>\<bar>
     \<Longrightarrow> times_number x y = Rounded"
  by (auto simp add: times_number_def safeInteger_def)

lemma seatMessage_nonempty: "seatMessage e \<noteq> []"
  by (simp add: seatMessage_def)

lemma messageOr_nonempty: "d \<noteq> [] \<Longrightarrow> messageOr m d \<noteq> []"
  by (simp add: messageOr_def split: option.splits)

lemma fallbackMessage_nonempty: "fallbackMessage \<noteq> []"
  by (simp add: fallbackMessage_def)

lemma exec_append:
  "exec k (xs @ ys) s = (case exec k xs s of None \<Rightarrow> None | Some t \<Rightarrow> exec k ys t)"
  by (induction xs arbitrary: s) (auto split: option.splits)

text \<open>The state the sample session ends in: the status is still error, a request is in flight.\<close>

lemma retryRun_state:
  "exec isEmail retryRun (mount False) =
     Some \<lparr>formValues = formAl, errors = [], bookingStatus = Error,
           errorMessage = ''Only 45 seats available. Please reduce quantity.'',
           open_prop = True, isPending = True, timers = 0,
           effects = [MutateAsync \<lparr>name = ''Al'', email = ''a@b.com'', mobile = ''1234567890'',
                                   quantity = Fin 2, eventId = ''2''\<rparr>]\<rparr>"
proof -
  have a: "availableSeats festival = 45" and i: "id_event festival = ''2''"
    by (simp_all add: festival_def)
  have v1: "bookingSchema isEmail (formAl\<lparr>quantity := Fin 46\<rparr>) = []"
    using validates_formAl_46 by (simp add: validates_def)
  have v2: "bookingSchema isEmail formAl = []"
    using validates_formAl by (simp add: validates_def)
  have q: "quantity formAl = Fin 2" "name formAl = ''Al''" "email formAl = ''a@b.com''"
    "mobile formAl = ''1234567890''"
    by (simp_all add: formAl_def)
  show ?thesis
    by (simp add: retryRun_def step_def rerender_def useEffect_open_def mount_def
          BookingDialog_def handleSubmit_def onSubmit_call_def seatMessage_def Let_def
          a i numToString_45 v1 v2 q)
qed

text \<open>Every operation keeps the invariant \<open>errorHasMessage\<close>.\<close>

lemma step_keeps_message:
  assumes "errorHasMessage s" and "step emailOk ev op s = Some s'"
  shows "errorHasMessage s'"
proof (cases op)
  case (Render b)
  with assms show ?thesis
    by (auto simp add: step_def rerender_def useEffect_open_def errorHasMessage_def
          split: if_splits)
next
  case (Change v)
  with assms show ?thesis
    by (auto simp add: step_def errorHasMessage_def split: option.splits if_splits)
next
  case SubmitForm
  with assms show ?thesis
    by (auto simp add: step_def BookingDialog_def handleSubmit_def onSubmit_call_def
          errorHasMessage_def seatMessage_nonempty Let_def split: option.splits if_splits)
next
  case (Settle r)
  with assms show ?thesis
    by (cases r)
      (auto simp add: step_def onSubmit_settled_def errorHasMessage_def
         messageOr_nonempty fallbackMessage_nonempty split: if_splits)
next
  case TimerFires
  with assms show ?thesis
    by (auto simp add: step_def timeoutCallback_def errorHasMessage_def split: if_splits)
next
  case CancelClick
  with assms show ?thesis
    by (auto simp add: step_def errorHasMessage_def split: option.splits if_splits)
qed

lemma exec_keeps_message:
  "errorHasMessage s \<Longrightarrow> exec emailOk ops s = Some t \<Longrightarrow> errorHasMessage t"
proof (induction ops arbitrary: s)
  case Nil
  then show ?case by simp
next
  case (Cons x ops)
  obtain ev op where x: "x = (ev, op)" by (cases x)
  from Cons.prems(2) x obtain s' where s': "step emailOk ev op s = Some s'"
    and rest: "exec emailOk ops s' = Some t"
    by (auto split: option.splits)
  from step_keeps_message [OF Cons.prems(1) s'] rest show ?case
    by (rule Cons.IH)
qed

lemma onSubmit_keeps_message:
  "errorHasMessage s \<Longrightarrow> errorHasMessage (onSubmit mutateAsync ev d s)"
  by (cases "mutateAsync \<lparr>name = name d, email = email d, mobile = mobile d,
                quantity = quantity d, eventId = id_event (the ev)\<rparr>")
    (auto simp add: onSubmit_def onSubmit_call_def onSubmit_settled_def errorHasMessage_def
       seatMessage_nonempty messageOr_nonempty fallbackMessage_nonempty Let_def
       split: option.splits)

section \<open>The booking dialog: submit handler and open transition\<close>

text \<open>
  C1. When the requested quantity exceeds the event's available seats, the submit handler
  sets the status to error and changes nothing but the status and the message; it calls
  \<open>mutateAsync\<close> for no request: the result does not depend on \<open>mutateAsync\<close>, the handler
  stops before its \<open>await\<close>, and the list of calls made is unchanged, also when the handler
  is reached through the form. For an available count a that is a safe integer the message
  is "Only n seats available. Please reduce quantity.", where n is the decimal numeral
  that denotes a, and the only one.
\<close>

theorem onSubmit_seat_guard:
  assumes "gt_number (quantity d) (Fin (of_int (availableSeats e)))"
  shows "bookingStatus (onSubmit mutateAsync (Some e) d s) = Error
         \<and> onSubmit mutateAsync (Some e) d s =
             s\<lparr>bookingStatus := Error,
               errorMessage := errorMessage (onSubmit mutateAsync (Some e) d s)\<rparr>
         \<and> (\<bar>availableSeats e\<bar> \<le> 9007199254740991 \<longrightarrow>
              (\<exists>n. errorMessage (onSubmit mutateAsync (Some e) d s) =
                      ''Only '' @ n @ '' seats available. Please reduce quantity.''
                   \<and> readCount n = Some (availableSeats e)
                   \<and> (\<forall>t. readCount t = Some (availableSeats e) \<longrightarrow> t = n)))
         \<and> snd (onSubmit_call (Some e) d s) = None
         \<and> effects (onSubmit mutateAsync (Some e) d s) = effects s
         \<and> isPending (onSubmit mutateAsync (Some e) d s) = isPending s
         \<and> (formValues s = d \<longrightarrow> effects (handleSubmit emailOk (Some e) s) = effects s)"
proof -
  have run: "onSubmit mutateAsync (Some e) d s =
      s\<lparr>bookingStatus := Error,
        errorMessage := ''Only '' @ numToString (availableSeats e) @
                        '' seats available. Please reduce quantity.''\<rparr>"
    using assms by (simp add: onSubmit_def onSubmit_call_def seatMessage_def)
  have msg: "\<exists>n. errorMessage (onSubmit mutateAsync (Some e) d s) =
                      ''Only '' @ n @ '' seats available. Please reduce quantity.''
                   \<and> readCount n = Some (availableSeats e)
                   \<and> (\<forall>t. readCount t = Some (availableSeats e) \<longrightarrow> t = n)"
  proof (intro exI conjI allI impI)
    show "errorMessage (onSubmit mutateAsync (Some e) d s) =
            ''Only '' @ numToString (availableSeats e) @
            '' seats available. Please reduce quantity.''"
      by (simp add: run)
    show "readCount (numToString (availableSeats e)) = Some (availableSeats e)"
      by (rule readCount_numToString)
    show "t = numToString (availableSeats e)" if "readCount t = Some (availableSeats e)" for t
      using that by (simp add: numToString_readCount)
  qed
  have call: "snd (onSubmit_call (Some e) d s) = None"
    using assms by (simp add: onSubmit_call_def)
  have form: "formValues s = d \<longrightarrow> effects (handleSubmit emailOk (Some e) s) = effects s"
    using assms by (simp add: handleSubmit_def onSubmit_call_def Let_def)
  from msg call form show ?thesis
    by (simp add: run)
qed

theorem onSubmit_seat_guard_witness:
  "gt_number (quantity (formAl\<lparr>quantity := Fin 46\<rparr>)) (Fin (of_int (availableSeats festival)))
   \<and> \<bar>availableSeats festival\<bar> \<le> 9007199254740991
   \<and> bookingStatus
       (onSubmit accepting (Some festival) (formAl\<lparr>quantity := Fin 46\<rparr>) (mount True)) = Error
   \<and> errorMessage
       (onSubmit accepting (Some festival) (formAl\<lparr>quantity := Fin 46\<rparr>) (mount True)) =
       ''Only 45 seats available. Please reduce quantity.''
   \<and> effects
       (onSubmit accepting (Some festival) (formAl\<lparr>quantity := Fin 46\<rparr>) (mount True)) = []"
proof -
  have g: "gt_number (quantity (formAl\<lparr>quantity := Fin 46\<rparr>))
             (Fin (of_int (availableSeats festival)))"
    by (simp add: formAl_def festival_def)
  have a: "availableSeats festival = 45"
    by (simp add: festival_def)
  have sf: "\<bar>availableSeats festival\<bar> \<le> 9007199254740991"
    by (simp add: a)
  from onSubmit_seat_guard [OF g, of accepting "mount True" isEmail] sf
  obtain n where
    st: "bookingStatus
       (onSubmit accepting (Some festival) (formAl\<lparr>quantity := Fin 46\<rparr>) (mount True)) = Error"
    and m: "errorMessage
       (onSubmit accepting (Some festival) (formAl\<lparr>quantity := Fin 46\<rparr>) (mount True)) =
       ''Only '' @ n @ '' seats available. Please reduce quantity.''"
    and u: "\<forall>t. readCount t = Some (availableSeats festival) \<longrightarrow> t = n"
    and ef: "effects
       (onSubmit accepting (Some festival) (formAl\<lparr>quantity := Fin 46\<rparr>) (mount True)) =
       effects (mount True)"
    by blast
  have "readCount ''45'' = Some (availableSeats festival)"
    by (simp add: a readCount_def readNat_def digitValue_def)
  with u have n: "n = ''45''"
    by blast
  from g sf st m ef show ?thesis
    by (simp add: n mount_def)
qed

text \<open>
  C3. Whatever the status, the message and the form content were, a render with
  \<open>open = true\<close> after a render with \<open>open = false\<close> leaves the form at its defaults with
  quantity 1 and no field errors, the status idle and the error message empty.
\<close>

theorem reopen_resets:
  assumes "\<not> open_prop s"
  shows "step emailOk ev (Render True) s = Some (rerender True s)
         \<and> formValues (rerender True s) = defaultValues
         \<and> quantity (formValues (rerender True s)) = Fin 1
         \<and> bookingStatus (rerender True s) = Idle
         \<and> errorMessage (rerender True s) = []
         \<and> errors (rerender True s) = []
         \<and> open_prop (rerender True s)"
  using assms by (simp add: step_def rerender_def useEffect_open_def defaultValues_def)

theorem reopen_resets_witness:
  "\<not> open_prop ((mount False)\<lparr>formValues := formAl, bookingStatus := Error,
                   errorMessage := ''Payment declined''\<rparr>)
   \<and> rerender True ((mount False)\<lparr>formValues := formAl, bookingStatus := Error,
                   errorMessage := ''Payment declined''\<rparr>) = mount True"
proof -
  have c: "\<not> open_prop ((mount False)\<lparr>formValues := formAl, bookingStatus := Error,
                   errorMessage := ''Payment declined''\<rparr>)"
    by (simp add: mount_def)
  show ?thesis
    using c reopen_resets [OF c, of isEmail "Some festival"]
    by (simp add: mount_def rerender_def useEffect_open_def)
qed



section \<open>The booking dialog: what is rendered\<close>




text \<open>
  C7. Whenever the dialog is rendered, the submit button is disabled exactly when a
  booking request is pending or the event has no available seat.
\<close>

theorem submit_disabled_iff:
  "BookingDialog (Some e) s = Some view \<Longrightarrow>
     (submitDisabled view \<longleftrightarrow> isPending s \<or> availableSeats e = 0)"
  by (auto simp add: BookingDialog_def)

theorem submit_disabled_iff_witness:
  "submitDisabled (the (BookingDialog (Some (festival\<lparr>availableSeats := 0\<rparr>)) (mount True)))
   \<and> submitDisabled (the (BookingDialog (Some festival) ((mount True)\<lparr>isPending := True\<rparr>)))
   \<and> \<not> submitDisabled (the (BookingDialog (Some festival) (mount True)))"
proof -
  have r: "\<And>e s. BookingDialog (Some e) s = Some (the (BookingDialog (Some e) s))"
    by (simp add: BookingDialog_def)
  show ?thesis
    using submit_disabled_iff [OF r, of "festival\<lparr>availableSeats := 0\<rparr>" "mount True"]
      submit_disabled_iff [OF r, of festival "(mount True)\<lparr>isPending := True\<rparr>"]
      submit_disabled_iff [OF r, of festival "mount True"]
    by (simp add: festival_def mount_def)
qed

section \<open>The booking dialog: validation\<close>

text \<open>
  C6. A form validates exactly when its name has at least 2 characters, its email passes
  the address check, its mobile number has at least 10 characters and its quantity is a
  number that is at least 1. Replacing the name of a valid form by "Al" keeps it valid,
  and the name "A" gives the issue "Name must be at least 2 characters"; with the address
  recogniser \<open>isEmail\<close>, the email "a@b.com" keeps a valid form valid and "not-an-email"
  gives the issue "Invalid email address". When a form does not validate, submitting it
  only records the issues as field errors: the submit handler does not run.
\<close>

theorem bookingSchema_rules:
  "(validates emailOk d \<longleftrightarrow>
      2 \<le> length (name d) \<and> emailOk (email d) \<and> 10 \<le> length (mobile d) \<and>
      ge_number (quantity d) (Fin 1))
   \<and> (validates emailOk d \<longrightarrow> validates emailOk (d\<lparr>name := ''Al''\<rparr>))
   \<and> (NameField, ''Name must be at least 2 characters'')
        \<in> set (bookingSchema emailOk (d\<lparr>name := ''A''\<rparr>))
   \<and> (validates isEmail d \<longrightarrow> validates isEmail (d\<lparr>email := ''a@b.com''\<rparr>))
   \<and> (EmailField, ''Invalid email address'')
        \<in> set (bookingSchema isEmail (d\<lparr>email := ''not-an-email''\<rparr>))
   \<and> (\<not> validates emailOk (formValues s) \<longrightarrow>
        handleSubmit emailOk ev s = s\<lparr>errors := bookingSchema emailOk (formValues s)\<rparr>)"
proof -
  have iff: "\<And>k f. validates k f \<longleftrightarrow>
      2 \<le> length (name f) \<and> k (email f) \<and> 10 \<le> length (mobile f) \<and>
      ge_number (quantity f) (Fin 1)"
    by (auto simp add: validates_def bookingSchema_def split: number.splits if_splits)
  have al: "validates emailOk d \<longrightarrow> validates emailOk (d\<lparr>name := ''Al''\<rparr>)"
    by (simp add: iff)
  have a: "(NameField, ''Name must be at least 2 characters'')
             \<in> set (bookingSchema emailOk (d\<lparr>name := ''A''\<rparr>))"
    by (simp add: bookingSchema_def)
  have ok: "validates isEmail d \<longrightarrow> validates isEmail (d\<lparr>email := ''a@b.com''\<rparr>)"
    by (simp add: iff isEmail_sample)
  have bad: "(EmailField, ''Invalid email address'')
               \<in> set (bookingSchema isEmail (d\<lparr>email := ''not-an-email''\<rparr>))"
    by (simp add: bookingSchema_def isEmail_sample_not)
  have block: "\<not> validates emailOk (formValues s) \<longrightarrow>
        handleSubmit emailOk ev s = s\<lparr>errors := bookingSchema emailOk (formValues s)\<rparr>"
    by (simp add: handleSubmit_def validates_def Let_def)
  from iff [of emailOk d] al a ok bad block show ?thesis by blast
qed

theorem bookingSchema_rules_witness:
  "validates isEmail formAl
   \<and> \<not> validates isEmail (formAl\<lparr>name := ''A''\<rparr>)
   \<and> \<not> validates isEmail (formAl\<lparr>email := ''not-an-email''\<rparr>)
   \<and> \<not> validates isEmail (formAl\<lparr>mobile := ''123456789''\<rparr>)
   \<and> \<not> validates isEmail (formAl\<lparr>quantity := Fin 0\<rparr>)
   \<and> \<not> validates isEmail (formAl\<lparr>quantity := NaN\<rparr>)
   \<and> handleSubmit isEmail (Some festival) ((mount True)\<lparr>formValues := formAl\<lparr>name := ''A''\<rparr>\<rparr>)
       = (mount True)\<lparr>formValues := formAl\<lparr>name := ''A''\<rparr>,
                      errors := [(NameField, ''Name must be at least 2 characters'')]\<rparr>"
proof -
  have issues: "bookingSchema isEmail (formAl\<lparr>name := ''A''\<rparr>) =
                  [(NameField, ''Name must be at least 2 characters'')]"
    by (simp add: bookingSchema_def formAl_def isEmail_sample)
  show ?thesis
    using bookingSchema_rules [of isEmail formAl]
      bookingSchema_rules [of isEmail "formAl\<lparr>name := ''A''\<rparr>"]
      bookingSchema_rules [of isEmail "formAl\<lparr>email := ''not-an-email''\<rparr>"]
      bookingSchema_rules [of isEmail "formAl\<lparr>mobile := ''123456789''\<rparr>"]
      bookingSchema_rules [of isEmail "formAl\<lparr>quantity := Fin 0\<rparr>"]
      bookingSchema_rules [of isEmail "formAl\<lparr>quantity := NaN\<rparr>"]
      bookingSchema_rules [of isEmail "formAl\<lparr>name := ''A''\<rparr>"
        "(mount True)\<lparr>formValues := formAl\<lparr>name := ''A''\<rparr>\<rparr>" "Some festival"]
      issues
    by (simp add: formAl_def isEmail_sample isEmail_sample_not)
qed

section \<open>The booking dialog: the status field over a session\<close>

text \<open>
  C9, as the claim states it, fails: in the sample session the status is error after the
  first submission (46 of 45 seats); the user corrects the quantity and submits again
  without reopening, the request completes, and the status goes from error to success,
  which is not among the enumerated transitions.
\<close>

theorem resubmit_counterexample:
  "map_option bookingStatus (exec isEmail retryRun (mount False)) = Some Error
   \<and> map_option bookingStatus
       (exec isEmail (retryRun @ [(Some festival, Settle Resolved)]) (mount False)) = Some Success
   \<and> \<not> enumerated Error Success"
  by (simp add: exec_append retryRun_state step_def onSubmit_settled_def)

text \<open>
  The same session, continued: with the status at success the user submits once more
  before the dialog is closed, the request is rejected, and the status goes from success
  to error.
\<close>

lemma success_then_error:
  "map_option bookingStatus
     (exec isEmail (retryRun @ [(Some festival, Settle Resolved), (Some festival, SubmitForm)])
        (mount False)) = Some Success
   \<and> map_option bookingStatus
     (exec isEmail (retryRun @ [(Some festival, Settle Resolved), (Some festival, SubmitForm),
                                (Some festival, Settle (Rejected None))])
        (mount False)) = Some Error"
proof -
  have a: "availableSeats festival = 45"
    by (simp add: festival_def)
  have v: "bookingSchema isEmail formAl = []"
    using validates_formAl by (simp add: validates_def)
  have q: "quantity formAl = Fin 2"
    by (simp add: formAl_def)
  show ?thesis
    by (simp add: exec_append retryRun_state step_def onSubmit_settled_def BookingDialog_def
          handleSubmit_def onSubmit_call_def Let_def a v q)
qed

text \<open>
  C9, amended. An operation changes the status only in these ways: to idle, by a render
  that takes the dialog from closed to open; to success, by the completion without error
  of the request in flight; to error, by the rejection of the request in flight or by a
  submission that validates and asks for more seats than are available. The status before
  the change is not restricted: a form resubmitted without reopening goes from error to
  success, or from success to error.
\<close>

theorem status_changes:
  assumes "step emailOk ev op s = Some s'" and "bookingStatus s' \<noteq> bookingStatus s"
  shows "(bookingStatus s' = Idle \<and> op = Render True \<and> \<not> open_prop s)
       \<or> (bookingStatus s' = Success \<and> op = Settle Resolved \<and> isPending s)
       \<or> (bookingStatus s' = Error \<and> isPending s \<and> (\<exists>m. op = Settle (Rejected m)))
       \<or> (bookingStatus s' = Error \<and> op = SubmitForm \<and> seatViolation emailOk ev s)"
proof (cases op)
  case (Render b)
  with assms show ?thesis
    by (auto simp add: step_def rerender_def useEffect_open_def split: if_splits)
next
  case (Change v)
  with assms show ?thesis
    by (auto simp add: step_def split: option.splits if_splits)
next
  case SubmitForm
  with assms show ?thesis
    by (auto simp add: step_def BookingDialog_def handleSubmit_def onSubmit_call_def
          seatViolation_def validates_def Let_def split: option.splits if_splits)
next
  case (Settle r)
  with assms show ?thesis
    by (cases r) (auto simp add: step_def onSubmit_settled_def split: if_splits)
next
  case TimerFires
  with assms show ?thesis
    by (auto simp add: step_def timeoutCallback_def split: if_splits)
next
  case CancelClick
  with assms show ?thesis
    by (auto simp add: step_def split: option.splits if_splits)
qed

theorem status_changes_witness:
  "step isEmail (Some festival) (Settle Resolved) ((mount True)\<lparr>isPending := True\<rparr>) =
     Some ((mount True)\<lparr>bookingStatus := Success, timers := 1,
                        effects := [Confetti, SetTimeout 100]\<rparr>)
   \<and> bookingStatus ((mount True)\<lparr>bookingStatus := Success, timers := 1,
                        effects := [Confetti, SetTimeout 100]\<rparr>)
       \<noteq> bookingStatus ((mount True)\<lparr>isPending := True\<rparr>)
   \<and> isPending ((mount True)\<lparr>isPending := True\<rparr>)"
proof -
  have st: "step isEmail (Some festival) (Settle Resolved) ((mount True)\<lparr>isPending := True\<rparr>) =
     Some ((mount True)\<lparr>bookingStatus := Success, timers := 1,
                        effects := [Confetti, SetTimeout 100]\<rparr>)"
    by (simp add: step_def onSubmit_settled_def mount_def)
  have ne: "bookingStatus ((mount True)\<lparr>bookingStatus := Success, timers := 1,
                        effects := [Confetti, SetTimeout 100]\<rparr>)
       \<noteq> bookingStatus ((mount True)\<lparr>isPending := True\<rparr>)"
    by (simp add: mount_def)
  show ?thesis
    using st ne status_changes [OF st ne] by simp
qed

text \<open>
  C10. A freshly mounted dialog satisfies the invariant "when the status is error, the
  error message is not empty", and every operation keeps it: each step of a session, the
  submit handler run to its end (seat guard, request success, request failure), and so
  every state a session reaches. Right after a closed-to-open transition the status is
  idle and the error message is the empty string.
\<close>

theorem error_has_message:
  "errorHasMessage (mount b)
   \<and> (errorHasMessage s \<longrightarrow> step emailOk ev op s = Some s' \<longrightarrow> errorHasMessage s')
   \<and> (errorHasMessage s \<longrightarrow> errorHasMessage (onSubmit mutateAsync ev d s))
   \<and> (exec emailOk ops (mount b) = Some t \<longrightarrow> errorHasMessage t)
   \<and> (\<not> open_prop s \<longrightarrow>
        bookingStatus (rerender True s) = Idle \<and> errorMessage (rerender True s) = [])"
proof -
  have m: "errorHasMessage (mount b)"
    by (simp add: errorHasMessage_def mount_def)
  have r: "\<not> open_prop s \<longrightarrow>
        bookingStatus (rerender True s) = Idle \<and> errorMessage (rerender True s) = []"
    by (simp add: rerender_def useEffect_open_def)
  from m r step_keeps_message [of s emailOk ev op s'] exec_keeps_message [OF m, of emailOk ops t]
    onSubmit_keeps_message [of s mutateAsync ev d]
  show ?thesis by blast
qed

theorem error_has_message_witness:
  "exec isEmail retryRun (mount False) \<noteq> None
   \<and> bookingStatus (the (exec isEmail retryRun (mount False))) = Error
   \<and> errorMessage (the (exec isEmail retryRun (mount False))) \<noteq> []
   \<and> bookingStatus (onSubmit declining (Some festival) formAl (mount True)) = Error
   \<and> errorMessage (onSubmit declining (Some festival) formAl (mount True)) \<noteq> []"
proof -
  have e: "exec isEmail retryRun (mount False) = Some (the (exec isEmail retryRun (mount False)))"
    by (simp add: retryRun_state)
  have st: "bookingStatus (the (exec isEmail retryRun (mount False))) = Error"
    by (simp add: retryRun_state)
  have d: "bookingStatus (onSubmit declining (Some festival) formAl (mount True)) = Error"
    by (simp add: onSubmit_def onSubmit_call_def onSubmit_settled_def declining_def
          formAl_def festival_def Let_def)
  have m: "errorHasMessage (mount True)"
    by (simp add: errorHasMessage_def mount_def)
  have k: "errorHasMessage (the (exec isEmail retryRun (mount False)))
           \<and> errorHasMessage (onSubmit declining (Some festival) formAl (mount True))"
    using e m
      error_has_message [of False "mount True" isEmail "Some festival" SubmitForm
        "mount True" declining formAl retryRun "the (exec isEmail retryRun (mount False))"]
    by blast
  have ne: "exec isEmail retryRun (mount False) \<noteq> None"
    by (simp add: retryRun_state)
  show ?thesis
    using ne st d k by (simp add: errorHasMessage_def)
qed

section \<open>The event detail hook\<close>

text \<open>
  C2, as the claim states it, fails: called without an identifier the hook does not
  report an error. The query is disabled, so the query function that would throw
  "Event ID is required" is not run; the hook reports a pending status and no error, at
  once and afterwards.
\<close>

theorem useEvent_absent_counterexample:
  "status (snd (useEvent offline None)) \<noteq> StatusError
   \<and> error (snd (useEvent offline None)) \<noteq> Some ''Event ID is required''
   \<and> status (useEvent_first offline None) \<noteq> StatusError
   \<and> error (useEvent_first offline None) \<noteq> Some ''Event ID is required''"
  by (simp add: useEvent_def useEvent_first_def useQuery_settled_def useQuery_first_def
        useEvent_options_def absent_def)

text \<open>
  C2, amended. For an absent identifier (undefined or the empty string) the hook passes
  \<open>enabled = false\<close>, no network call is issued, and the hook reports a pending status, an
  idle fetch and no error. The query function itself, were it called, throws
  "Event ID is required" without a network call.
\<close>

theorem useEvent_absent:
  assumes "absent ident"
  shows "fst (useEvent get ident) = []
         \<and> snd (useEvent get ident) =
             \<lparr>status = StatusPending, fetchStatus = FetchIdle, error = None, fetched = None\<rparr>
         \<and> useEvent_first get ident =
             \<lparr>status = StatusPending, fetchStatus = FetchIdle, error = None, fetched = None\<rparr>
         \<and> \<not> enabled (useEvent_options get ident)
         \<and> queryFn (useEvent_options get ident) = ([], Throws ''Event ID is required'')"
  using assms
  by (simp add: useEvent_def useEvent_first_def useQuery_settled_def useQuery_first_def
        useEvent_options_def queryFn_call_def)

theorem useEvent_absent_witness:
  "absent None \<and> absent (Some [])
   \<and> fst (useEvent offline None) = [] \<and> fst (useEvent offline (Some [])) = []
   \<and> queryFn (useEvent_options offline (Some [])) = ([], Throws ''Event ID is required'')"
proof -
  have a: "absent None" and b: "absent (Some [])"
    by (simp_all add: absent_def)
  show ?thesis
    using a b useEvent_absent [OF a, of offline] useEvent_absent [OF b, of offline]
    by simp
qed

section \<open>The event listing page\<close>

text \<open>
  C8. For any two states of the search, location and date controls the page renders the
  same grid, and that grid holds the full list of events, in order: six cards, keyed by
  the event identifiers. The controls' own values are the only rendered parts that depend
  on them.
\<close>

theorem grid_ignores_filters:
  "grid (Events f1) = grid (Events f2)
   \<and> map cardProps (grid (Events f1)) = allEvents
   \<and> map key (grid (Events f1)) = [''1'', ''2'', ''3'', ''4'', ''5'', ''6'']
   \<and> showing (Events f1) = 6"
proof -
  have "map cardProps (map (\<lambda>(index, event).
          \<lparr>key = id_event event, delay = of_nat index / 10, cardProps = event\<rparr>)
          (enumerate n xs)) = xs" for n and xs :: "Event list"
    by (induction xs arbitrary: n) simp_all
  then show ?thesis
    by (simp add: Events_def) (simp add: allEvents_def)
qed

theorem grid_ignores_filters_witness:
  "grid (Events \<lparr>searchTerm = ''jazz'', locationFilter = ''sf'', dateFilter = ''today''\<rparr>)
     = grid (Events initialFilters)
   \<and> map cardProps (grid (Events \<lparr>searchTerm = ''jazz'', locationFilter = ''sf'',
                                   dateFilter = ''today''\<rparr>)) = allEvents"
  using grid_ignores_filters
    [of "\<lparr>searchTerm = ''jazz'', locationFilter = ''sf'', dateFilter = ''today''\<rparr>"
       initialFilters]
  by blast

end
